theory Spec2Isabelle
  imports Complex_Main "HOL-Library.AList"
begin

section \<open>Admission prediction: the daily table and its forecasts\<close>

text \<open>
  A shallow embedding of \<^verbatim>\<open>src/prediction/admission_predictor.py\<close>
  (class \<^verbatim>\<open>AdmissionPredictor\<close>).

  Conventions of the embedding.
  \<^item> A timestamp at midnight is the number of its day, counted from 1970-01-01
    (day 0); \<^verbatim>\<open>NaT\<close> is \<open>None\<close>. Day numbers are unbounded: the range limit of
    a pandas \<^verbatim>\<open>Timestamp\<close> is not modelled.
  \<^item> A float is a real number and \<^verbatim>\<open>NaN\<close> is \<open>None\<close>: rounding errors of
    floating-point arithmetic are not modelled.
  \<^item> Functions of pandas, numpy, scikit-learn and \<^verbatim>\<open>datetime\<close> that the class
    calls are written out after their documented behaviour, or taken as parameters
    (the three regressors, the parser of date strings).
\<close>

subsection \<open>Library: the calendar\<close>

text \<open>The civil date (year, month, day) of a day number, proleptic Gregorian calendar.\<close>

definition civil_from_days :: "int \<Rightarrow> int \<times> int \<times> int" where
  "civil_from_days z0 =
     (let z = z0 + 719468;
          era = z div 146097;
          doe = z - era * 146097;
          yoe = (doe - doe div 1460 + doe div 36524 - doe div 146096) div 365;
          y = yoe + era * 400;
          doy = doe - (365 * yoe + yoe div 4 - yoe div 100);
          mp = (5 * doy + 2) div 153;
          d = doy - (153 * mp + 2) div 5 + 1;
          m = (if mp < 10 then mp + 3 else mp - 9)
      in (if m \<le> 2 then y + 1 else y, m, d))"

definition days_from_civil :: "int \<Rightarrow> int \<Rightarrow> int \<Rightarrow> int" where
  "days_from_civil y0 m d =
     (let y = (if m \<le> 2 then y0 - 1 else y0);
          era = y div 400;
          yoe = y - era * 400;
          doy = (153 * (if m > 2 then m - 3 else m + 9) + 2) div 5 + d - 1;
          doe = yoe * 365 + yoe div 4 - yoe div 100 + doy
      in era * 146097 + doe - 719468)"

definition dt_year :: "int \<Rightarrow> int" where
  "dt_year d = fst (civil_from_days d)"

definition dt_month :: "int \<Rightarrow> int" where
  "dt_month d = fst (snd (civil_from_days d))"

definition dt_day :: "int \<Rightarrow> int" where
  "dt_day d = snd (snd (civil_from_days d))"

text \<open>Monday is 0; day 0 (1970-01-01) was a Thursday.\<close>

definition dt_dayofweek :: "int \<Rightarrow> int" where
  "dt_dayofweek d = (d + 3) mod 7"

definition dt_dayofyear :: "int \<Rightarrow> int" where
  "dt_dayofyear d = d - days_from_civil (dt_year d) 1 1 + 1"

text \<open>The Monday that starts ISO week 1 of a year, and the ISO week number of a day.\<close>

definition isoweek1monday :: "int \<Rightarrow> int" where
  "isoweek1monday y =
     (let firstday = days_from_civil y 1 1;
          firstweekday = dt_dayofweek firstday;
          week1monday = firstday - firstweekday
      in if firstweekday > 3 then week1monday + 7 else week1monday)"

definition dt_isoweek :: "int \<Rightarrow> int" where
  "dt_isoweek today =
     (let y = dt_year today;
          week = (today - isoweek1monday y) div 7
      in if week < 0 then (today - isoweek1monday (y - 1)) div 7 + 1
         else if week \<ge> 52 \<and> today \<ge> isoweek1monday (y + 1) then 1
         else week + 1)"

text \<open>
  \<^verbatim>\<open>strftime('%Y-%m-%d')\<close> for the years 0 to 9999: decimal digits, padded with zeros
  on the left.
\<close>

fun digit_char :: "nat \<Rightarrow> char" where
  "digit_char n = char_of (48 + n)"

fun decimal :: "nat \<Rightarrow> nat \<Rightarrow> string" where
  "decimal 0 n = []"
| "decimal (Suc w) n = decimal w (n div 10) @ [digit_char (n mod 10)]"

definition strftime_ymd :: "int \<Rightarrow> string" where
  "strftime_ymd d =
     decimal 4 (nat (dt_year d)) @ ''-'' @ decimal 2 (nat (dt_month d)) @ ''-'' @
     decimal 2 (nat (dt_day d))"

subsection \<open>Library: series\<close>

text \<open>\<^verbatim>\<open>Series.shift(k)\<close>: the value \<open>k\<close> rows earlier, \<^verbatim>\<open>NaN\<close> in the first \<open>k\<close> rows.\<close>

definition shift :: "nat \<Rightarrow> real list \<Rightarrow> real option list" where
  "shift k xs = replicate (min k (length xs)) None @ map Some (take (length xs - k) xs)"

definition mean :: "real list \<Rightarrow> real" where
  "mean xs = sum_list xs / real (length xs)"

text \<open>\<^verbatim>\<open>Series.mean()\<close>, which is \<^verbatim>\<open>NaN\<close> on an empty series.\<close>

definition series_mean :: "real list \<Rightarrow> real option" where
  "series_mean xs = (if xs = [] then None else Some (mean xs))"

text \<open>
  \<^verbatim>\<open>Series.rolling(window=w).mean()\<close>: the mean of the \<open>w\<close> rows that end at row \<open>i\<close>,
  \<^verbatim>\<open>NaN\<close> until the window is full.
\<close>

definition rolling_mean :: "nat \<Rightarrow> real list \<Rightarrow> real option list" where
  "rolling_mean w xs =
     map (\<lambda>i. if i + 1 < w then None else Some (mean (take w (drop (i + 1 - w) xs))))
       [0..<length xs]"

text \<open>\<^verbatim>\<open>Series.tail(n)\<close>: the last \<open>n\<close> rows, all of them when there are fewer.\<close>

definition tail :: "nat \<Rightarrow> 'a list \<Rightarrow> 'a list" where
  "tail n xs = drop (length xs - n) xs"

text \<open>\<^verbatim>\<open>Series.max()\<close> of a column of timestamps: \<^verbatim>\<open>NaT\<close> when the column is empty.\<close>

fun series_max :: "int list \<Rightarrow> int option" where
  "series_max [] = None"
| "series_max (x # xs) = Some (fold max xs x)"

text \<open>
  \<^verbatim>\<open>groupby(key).size().reset_index(name=...)\<close> on one column of timestamps: rows whose
  key is \<^verbatim>\<open>NaT\<close> are left out, the keys that remain come out once each, in ascending
  order, each with the number of rows that carry it.
\<close>

definition groupby_size :: "int option list \<Rightarrow> (int \<times> int) list" where
  "groupby_size keys =
     (let present = [d. Some d \<leftarrow> keys]
      in map (\<lambda>d. (d, int (count_list present d))) (sort (remdups present)))"

subsection \<open>The table of daily admissions\<close>

text \<open>
  One row of \<^verbatim>\<open>self.daily_admissions\<close>. The columns have the names of the source;
  a lag or a rolling mean that is \<^verbatim>\<open>NaN\<close> is \<open>None\<close>.
\<close>

record daily_row =
  admission_date :: int
  admission_count :: int
  year :: int
  month :: int
  day :: int
  day_of_week :: int
  day_of_year :: int
  week_of_year :: int
  is_weekend :: int
  season :: int
  admission_count_lag_1 :: "real option"
  admission_count_lag_3 :: "real option"
  admission_count_lag_7 :: "real option"
  admission_count_lag_14 :: "real option"
  admission_count_lag_30 :: "real option"
  admission_count_rolling_3 :: "real option"
  admission_count_rolling_7 :: "real option"
  admission_count_rolling_14 :: "real option"
  admission_count_rolling_30 :: "real option"

definition get_season :: "int \<Rightarrow> int" where
  "get_season m =
     (if m \<in> set [12, 1, 2] then 0
      else if m \<in> set [3, 4, 5] then 1
      else if m \<in> set [6, 7, 8] then 2
      else 3)"

definition add_temporal_features :: "(int \<times> int) list \<Rightarrow> daily_row list" where
  "add_temporal_features df =
     (let dates = map fst df;
          counts = map (\<lambda>r. real_of_int (snd r)) df
      in map (\<lambda>i.
           \<lparr> admission_date = dates ! i,
             admission_count = snd (df ! i),
             year = dt_year (dates ! i),
             month = dt_month (dates ! i),
             day = dt_day (dates ! i),
             day_of_week = dt_dayofweek (dates ! i),
             day_of_year = dt_dayofyear (dates ! i),
             week_of_year = dt_isoweek (dates ! i),
             is_weekend = (if dt_dayofweek (dates ! i) \<ge> 5 then 1 else 0),
             season = get_season (dt_month (dates ! i)),
             admission_count_lag_1 = shift 1 counts ! i,
             admission_count_lag_3 = shift 3 counts ! i,
             admission_count_lag_7 = shift 7 counts ! i,
             admission_count_lag_14 = shift 14 counts ! i,
             admission_count_lag_30 = shift 30 counts ! i,
             admission_count_rolling_3 = rolling_mean 3 counts ! i,
             admission_count_rolling_7 = rolling_mean 7 counts ! i,
             admission_count_rolling_14 = rolling_mean 14 counts ! i,
             admission_count_rolling_30 = rolling_mean 30 counts ! i \<rparr>)
         [0..<length df])"

text \<open>
  The last two lines of \<^verbatim>\<open>_prepare_data\<close>: the daily table built from the parsed
  column \<^verbatim>\<open>admission_date\<close> of the admission table.
\<close>

definition daily_admissions_of :: "int option list \<Rightarrow> daily_row list" where
  "daily_admissions_of admission_dates = add_temporal_features (groupby_size admission_dates)"

subsection \<open>Selecting columns, dropping incomplete rows\<close>

datatype py_error = KeyError | ValueError | IndexError

text \<open>
  The numeric columns of a row under their names, as floats. (The column
  \<^verbatim>\<open>admission_date\<close> holds timestamps; in the daily table it is never \<^verbatim>\<open>NaT\<close>,
  since \<^verbatim>\<open>groupby\<close> leaves such keys out.)
\<close>

definition columns :: "daily_row \<Rightarrow> (string \<times> real option) list" where
  "columns r =
     [(''admission_count'', Some (real_of_int (admission_count r))),
      (''year'', Some (real_of_int (year r))),
      (''month'', Some (real_of_int (month r))),
      (''day'', Some (real_of_int (day r))),
      (''day_of_week'', Some (real_of_int (day_of_week r))),
      (''day_of_year'', Some (real_of_int (day_of_year r))),
      (''week_of_year'', Some (real_of_int (week_of_year r))),
      (''is_weekend'', Some (real_of_int (is_weekend r))),
      (''season'', Some (real_of_int (season r))),
      (''admission_count_lag_1'', admission_count_lag_1 r),
      (''admission_count_lag_3'', admission_count_lag_3 r),
      (''admission_count_lag_7'', admission_count_lag_7 r),
      (''admission_count_lag_14'', admission_count_lag_14 r),
      (''admission_count_lag_30'', admission_count_lag_30 r),
      (''admission_count_rolling_3'', admission_count_rolling_3 r),
      (''admission_count_rolling_7'', admission_count_rolling_7 r),
      (''admission_count_rolling_14'', admission_count_rolling_14 r),
      (''admission_count_rolling_30'', admission_count_rolling_30 r)]"

text \<open>\<^verbatim>\<open>DataFrame.dropna()\<close>: the rows in which no column is \<^verbatim>\<open>NaN\<close>.\<close>

definition dropna :: "daily_row list \<Rightarrow> daily_row list" where
  "dropna df = filter (\<lambda>r. list_all (\<lambda>(name, v). v \<noteq> None) (columns r)) df"

text \<open>
  \<^verbatim>\<open>frame[cols]\<close> on one row given as name-value pairs: the values of the named
  columns in the order of \<open>cols\<close>; \<open>None\<close> stands for the \<^verbatim>\<open>KeyError\<close> of a name
  that is no column.
\<close>

definition getitem :: "string list \<Rightarrow> (string \<times> real option) list \<Rightarrow> real option list option" where
  "getitem cols row = those (map (map_of row) cols)"

definition feature_cols :: "string list" where
  "feature_cols =
     [''month'', ''day_of_week'', ''day_of_year'', ''week_of_year'',
      ''is_weekend'', ''season'', ''admission_count_lag_1'',
      ''admission_count_lag_3'', ''admission_count_lag_7'',
      ''admission_count_rolling_3'', ''admission_count_rolling_7'']"

subsection \<open>Library: splitting, regressors, metrics\<close>

definition TEST_SIZE :: real where
  "TEST_SIZE = 0.2"

text \<open>
  \<^verbatim>\<open>train_test_split(X, y, test_size=TEST_SIZE, shuffle=False)\<close>: the test part is the
  trailing \<open>\<lceil>TEST_SIZE * n\<rceil>\<close> samples.
\<close>

definition train_test_split :: "'a list \<Rightarrow> 'b list \<Rightarrow> 'a list \<times> 'a list \<times> 'b list \<times> 'b list" where
  "train_test_split X y =
     (let n_test = nat \<lceil>TEST_SIZE * real (length X)\<rceil>;
          n_train = length X - n_test
      in (take n_train X, drop n_train X, take n_train y, drop n_train y))"

text \<open>
  A fitted regressor: its \<^verbatim>\<open>predict\<close> on one feature vector, and its
  \<^verbatim>\<open>feature_importances_\<close> when it has that attribute. The three estimators are
  parameters: each maps the training samples to a fitted regressor.
\<close>

record fitted =
  predict :: "real option list \<Rightarrow> real"
  feature_importances :: "real list option"

type_synonym estimator = "real option list list \<Rightarrow> real list \<Rightarrow> fitted"

record regressors =
  RandomForestRegressor :: estimator
  GradientBoostingRegressor :: estimator
  LinearRegression :: estimator

definition mean_absolute_error :: "real list \<Rightarrow> real list \<Rightarrow> real" where
  "mean_absolute_error y_true y_pred = mean (map (\<lambda>(t, p). \<bar>t - p\<bar>) (zip y_true y_pred))"

definition mean_squared_error :: "real list \<Rightarrow> real list \<Rightarrow> real" where
  "mean_squared_error y_true y_pred = mean (map (\<lambda>(t, p). (t - p)\<^sup>2) (zip y_true y_pred))"

definition r2_score :: "real list \<Rightarrow> real list \<Rightarrow> real" where
  "r2_score y_true y_pred =
     (let numerator = sum_list (map (\<lambda>(t, p). (t - p)\<^sup>2) (zip y_true y_pred));
          denominator = sum_list (map (\<lambda>t. (t - mean y_true)\<^sup>2) y_true)
      in if denominator \<noteq> 0 then 1 - numerator / denominator
         else if numerator = 0 then 1 else 0)"

record metrics =
  mae :: real
  mse :: real
  r2 :: real
  predictions :: "real list"

text \<open>The body of the training loop for one estimator: fit, predict the test part, score.\<close>

definition train_and_score ::
  "estimator \<Rightarrow> real option list list \<Rightarrow> real option list list \<Rightarrow> real list \<Rightarrow> real list \<Rightarrow>
   fitted \<times> metrics" where
  "train_and_score fit X_train X_test y_train y_test =
     (let model = fit X_train y_train;
          y_pred = map (predict model) X_test
      in (model,
          \<lparr> mae = mean_absolute_error y_test y_pred,
            mse = mean_squared_error y_test y_pred,
            r2 = r2_score y_test y_pred,
            predictions = y_pred \<rparr>))"

text \<open>
  The dictionary \<^verbatim>\<open>models\<close> and the loop over its items, which fills
  \<^verbatim>\<open>model_results\<close>: one entry per estimator, in the insertion order of the
  dictionary; each entry is a name with the fitted model and its metrics.
\<close>

definition train_models ::
  "regressors \<Rightarrow> real option list list \<Rightarrow> real option list list \<Rightarrow> real list \<Rightarrow> real list \<Rightarrow>
   (string \<times> fitted \<times> metrics) list" where
  "train_models sk X_train X_test y_train y_test =
     map (\<lambda>(name, fit). (name, train_and_score fit X_train X_test y_train y_test))
       [(''random_forest'', RandomForestRegressor sk),
        (''gradient_boosting'', GradientBoostingRegressor sk),
        (''linear_regression'', LinearRegression sk)]"

text \<open>
  Python's \<^verbatim>\<open>max(iterable, key=...)\<close>: the running maximum is replaced only by an item
  whose key is strictly greater; an empty iterable raises \<^verbatim>\<open>ValueError\<close>.
\<close>

fun max_loop :: "('a \<Rightarrow> real) \<Rightarrow> 'a \<Rightarrow> 'a list \<Rightarrow> 'a" where
  "max_loop key best [] = best"
| "max_loop key best (x # xs) = max_loop key (if key x > key best then x else best) xs"

definition py_max :: "('a \<Rightarrow> real) \<Rightarrow> 'a list \<Rightarrow> py_error + 'a" where
  "py_max key xs = (case xs of [] \<Rightarrow> Inl ValueError | x # rest \<Rightarrow> Inr (max_loop key x rest))"

text \<open>
  Line 189: the entry of \<^verbatim>\<open>model_results\<close> with the greatest \<^verbatim>\<open>r2\<close>. (The source
  takes the maximum over the names, with the \<^verbatim>\<open>r2\<close> of a name as its key; the names
  are distinct, so this is the maximum over the entries.)
\<close>

definition select_best ::
  "(string \<times> fitted \<times> metrics) list \<Rightarrow> py_error + (string \<times> fitted \<times> metrics)" where
  "select_best model_results = py_max (\<lambda>(name, model, m). r2 m) model_results"

subsection \<open>Future predictions\<close>

text \<open>
  Python's \<^verbatim>\<open>round\<close> without digits: to the nearest integer, a half to the even
  neighbour.
\<close>

definition py_round :: "real \<Rightarrow> int" where
  "py_round x =
     (let f = \<lfloor>x\<rfloor>; d = x - of_int f
      in if d < 1 / 2 then f
         else if d > 1 / 2 then f + 1
         else if even f then f else f + 1)"

record forecast_point =
  date :: string
  predicted_admissions :: int

text \<open>The dictionary \<^verbatim>\<open>features\<close> built for one future date.\<close>

definition future_features :: "daily_row list \<Rightarrow> int \<Rightarrow> (string \<times> real option) list" where
  "future_features daily d =
     (let recent_values = mean (map (\<lambda>r. real_of_int (admission_count r)) (tail 30 daily))
      in [(''month'', Some (real_of_int (dt_month d))),
          (''day_of_week'', Some (real_of_int (dt_dayofweek d))),
          (''day_of_year'', Some (real_of_int (dt_dayofyear d))),
          (''week_of_year'', Some (real_of_int (dt_isoweek d))),
          (''is_weekend'', Some (if dt_dayofweek d \<ge> 5 then 1 else 0)),
          (''season'', Some (real_of_int (get_season (dt_month d)))),
          (''admission_count_lag_1'', Some recent_values),
          (''admission_count_lag_3'', Some recent_values),
          (''admission_count_lag_7'', Some recent_values),
          (''admission_count_rolling_3'', Some recent_values),
          (''admission_count_rolling_7'', Some recent_values)])"

text \<open>
  The loop over \<^verbatim>\<open>future_dates\<close>; \<open>acc\<close> is the list \<^verbatim>\<open>predictions\<close> that the
  loop appends to.
\<close>

fun prediction_loop ::
  "(real option list \<Rightarrow> real) \<Rightarrow> string list \<Rightarrow> daily_row list \<Rightarrow> int list \<Rightarrow>
   forecast_point list \<Rightarrow> py_error + forecast_point list" where
  "prediction_loop model_predict cols daily [] acc = Inr acc"
| "prediction_loop model_predict cols daily (d # future_dates) acc =
     (case getitem cols (future_features daily d) of
        None \<Rightarrow> Inl KeyError
      | Some X_pred \<Rightarrow>
          prediction_loop model_predict cols daily future_dates
            (acc @
               [\<lparr> date = strftime_ymd d,
                  predicted_admissions = max 0 (py_round (model_predict X_pred)) \<rparr>]))"

text \<open>
  \<^verbatim>\<open>_generate_future_predictions\<close>. On an empty daily table the last date is
  \<^verbatim>\<open>NaT\<close>, whose \<^verbatim>\<open>timetuple\<close> raises \<^verbatim>\<open>ValueError\<close> in the first round of
  the loop; \<^verbatim>\<open>predict_daily_admissions\<close> never calls it so.
\<close>

definition generate_future_predictions ::
  "(real option list \<Rightarrow> real) \<Rightarrow> string list \<Rightarrow> daily_row list \<Rightarrow> int \<Rightarrow>
   py_error + forecast_point list" where
  "generate_future_predictions model_predict cols daily days_ahead =
     (case series_max (map admission_date daily) of
        None \<Rightarrow> (if days_ahead \<le> 0 then Inr [] else Inl ValueError)
      | Some last_date \<Rightarrow>
          prediction_loop model_predict cols daily
            (map (\<lambda>i. last_date + (i + 1)) [0..days_ahead - 1]) [])"

text \<open>
  \<^verbatim>\<open>_get_feature_importance\<close>: the importances by column name, greatest first
  (the sort is stable), empty when the model has none.
\<close>

definition get_feature_importance :: "fitted \<Rightarrow> string list \<Rightarrow> (string \<times> real) list" where
  "get_feature_importance model cols =
     (case feature_importances model of
        None \<Rightarrow> []
      | Some imp \<Rightarrow> sort_key (\<lambda>x. - snd x) (zip cols imp))"

subsection \<open>Daily predictions\<close>

record forecast =
  best_model :: string
  model_metrics :: "(string \<times> metrics) list"
  future_predictions :: "forecast_point list"
  feature_importance :: "(string \<times> real) list"

text \<open>
  The dictionary that \<^verbatim>\<open>predict_daily_admissions\<close> returns: either the single entry
  \<^verbatim>\<open>'error'\<close>, or the forecast.
\<close>

datatype daily_result = Error_dict string | Forecast_dict forecast

definition predict_daily_admissions ::
  "regressors \<Rightarrow> daily_row list \<Rightarrow> int \<Rightarrow> py_error + daily_result" where
  "predict_daily_admissions sk daily days_ahead =
     (let clean_data = dropna daily
      in if length clean_data < 30 then Inr (Error_dict ''Insufficient data for prediction'')
         else
           (case those (map (\<lambda>r. getitem feature_cols (columns r)) clean_data) of
              None \<Rightarrow> Inl KeyError
            | Some X \<Rightarrow>
                (let y = map (\<lambda>r. real_of_int (admission_count r)) clean_data;
                     (X_train, X_test, y_train, y_test) = train_test_split X y;
                     model_results = train_models sk X_train X_test y_train y_test
                 in case select_best model_results of
                      Inl e \<Rightarrow> Inl e
                    | Inr (best_model_name, best, _) \<Rightarrow>
                        (case generate_future_predictions (predict best) feature_cols daily days_ahead of
                           Inl e \<Rightarrow> Inl e
                         | Inr future \<Rightarrow>
                             Inr (Forecast_dict
                               \<lparr> best_model = best_model_name,
                                 model_metrics = map (\<lambda>(name, model, m). (name, m)) model_results,
                                 future_predictions = future,
                                 feature_importance = get_feature_importance best feature_cols \<rparr>)))))"

subsection \<open>Busy periods and capacity\<close>

text \<open>
  \<^verbatim>\<open>np.percentile(a, q)\<close>, default method (linear interpolation between the two
  nearest ranks). numpy checks \<open>q\<close> first and raises \<^verbatim>\<open>ValueError\<close> outside
  \<open>[0, 100]\<close>. On an empty array it gives no number (an \<^verbatim>\<open>IndexError\<close> in current
  versions, \<^verbatim>\<open>nan\<close> in older ones): the model has an error there.
\<close>

definition np_percentile :: "real list \<Rightarrow> real \<Rightarrow> py_error + real" where
  "np_percentile a q =
     (if q < 0 \<or> q > 100 then Inl ValueError
      else if a = [] then Inl IndexError
      else
        (let arr = sort a;
             n = length arr;
             virtual_index = real (n - 1) * (q / 100);
             previous = nat \<lfloor>virtual_index\<rfloor>;
             next = min (previous + 1) (n - 1);
             gamma = virtual_index - real previous
         in Inr (arr ! previous + (arr ! next - arr ! previous) * gamma)))"

text \<open>\<^verbatim>\<open>Series.value_counts().to_dict()\<close>: each value that occurs, with how often.\<close>

definition value_counts :: "int list \<Rightarrow> int \<Rightarrow> nat option" where
  "value_counts xs v = (if v \<in> set xs then Some (count_list xs v) else None)"

record busy_patterns =
  threshold :: real
  busy_day_count :: nat
  busy_day_percentage :: real
  average_busy_day_admissions :: "real option"
  busy_months :: "int \<Rightarrow> nat option"
  busy_days_of_week :: "int \<Rightarrow> nat option"
  busy_seasons :: "int \<Rightarrow> nat option"
  future_busy_periods :: "forecast_point list option"
  predicted_busy_days :: "nat option"

text \<open>
  \<^verbatim>\<open>predict_busy_periods\<close>. The two entries about the future are present only when
  the daily prediction has the key \<^verbatim>\<open>'future_predictions'\<close>. The percentage divides
  by the number of days, which is positive once the percentile has been computed.
\<close>

definition predict_busy_periods ::
  "regressors \<Rightarrow> daily_row list \<Rightarrow> real \<Rightarrow> py_error + busy_patterns" where
  "predict_busy_periods sk daily threshold_percentile =
     (case np_percentile (map (\<lambda>r. real_of_int (admission_count r)) daily) threshold_percentile of
        Inl e \<Rightarrow> Inl e
      | Inr thr \<Rightarrow>
          (let busy_days = filter (\<lambda>r. real_of_int (admission_count r) \<ge> thr) daily;
               patterns =
                 \<lparr> threshold = thr,
                   busy_day_count = length busy_days,
                   busy_day_percentage = real (length busy_days) / real (length daily) * 100,
                   average_busy_day_admissions =
                     series_mean (map (\<lambda>r. real_of_int (admission_count r)) busy_days),
                   busy_months = value_counts (map month busy_days),
                   busy_days_of_week = value_counts (map day_of_week busy_days),
                   busy_seasons = value_counts (map season busy_days),
                   future_busy_periods = None,
                   predicted_busy_days = None \<rparr>
           in case predict_daily_admissions sk daily 90 of
                Inl e \<Rightarrow> Inl e
              | Inr (Error_dict _) \<Rightarrow> Inr patterns
              | Inr (Forecast_dict f) \<Rightarrow>
                  (let future_busy =
                         filter (\<lambda>pred. real_of_int (predicted_admissions pred) \<ge> thr)
                           (future_predictions f)
                   in Inr (patterns
                        \<lparr> future_busy_periods := Some future_busy,
                          predicted_busy_days := Some (length future_busy) \<rparr>))))"

text \<open>Python's \<^verbatim>\<open>int\<close> of a float: truncation towards zero.\<close>

definition py_int :: "real \<Rightarrow> int" where
  "py_int x = (if x \<ge> 0 then \<lfloor>x\<rfloor> else \<lceil>x\<rceil>)"

record peak_requirements =
  max_daily_admissions :: int
  percentile_95 :: int
  percentile_90 :: int
  percentile_75 :: int

text \<open>
  \<^verbatim>\<open>analyze_capacity_requirements\<close>, its entry \<^verbatim>\<open>'peak_requirements'\<close>. The other
  entries (\<^verbatim>\<open>describe()\<close> and the statistics grouped by month and by weekday) are
  aggregates read from the same table and are not part of the model. On an empty table
  the maximum is \<^verbatim>\<open>nan\<close>, whose \<^verbatim>\<open>int\<close> raises \<^verbatim>\<open>ValueError\<close>.
\<close>

definition analyze_capacity_requirements :: "daily_row list \<Rightarrow> py_error + peak_requirements" where
  "analyze_capacity_requirements daily =
     (let counts = map (\<lambda>r. real_of_int (admission_count r)) daily
      in case daily of
           [] \<Rightarrow> Inl ValueError
         | r # rs \<Rightarrow>
             (case (np_percentile counts 95, np_percentile counts 90, np_percentile counts 75) of
                (Inr p95, Inr p90, Inr p75) \<Rightarrow>
                  Inr \<lparr> max_daily_admissions = fold max (map admission_count rs) (admission_count r),
                        percentile_95 = py_int p95,
                        percentile_90 = py_int p90,
                        percentile_75 = py_int p75 \<rparr>
              | (Inl e, _, _) \<Rightarrow> Inl e
              | (_, Inl e, _) \<Rightarrow> Inl e
              | (_, _, Inl e) \<Rightarrow> Inl e))"

subsection \<open>The object store and the constructor\<close>

text \<open>
  The admission table of the caller and the copy the predictor keeps are two objects.
  The store holds the data frames; the address of a frame is its index. A frame is the
  list of its columns under their names.
\<close>

datatype cell = Str string | Num real | NaN | Timestamp int | NaT

type_synonym dataframe = "(string \<times> cell list) list"

type_synonym store = "dataframe list"

text \<open>
  The object \<^verbatim>\<open>self\<close>: the address of \<^verbatim>\<open>self.data\<close> and the table
  \<^verbatim>\<open>self.daily_admissions\<close>. (The dictionaries \<^verbatim>\<open>models\<close>, \<^verbatim>\<open>scalers\<close>,
  \<^verbatim>\<open>encoders\<close> and \<^verbatim>\<open>feature_importance\<close> stay empty in every operation
  modelled here.)
\<close>

record admission_predictor =
  data :: nat
  daily_admissions :: "daily_row list"

text \<open>\<^verbatim>\<open>DataFrame.copy()\<close>: a new object with the same columns.\<close>

definition df_copy :: "store \<Rightarrow> nat \<Rightarrow> store \<times> nat" where
  "df_copy h a = (h @ [h ! a], length h)"

text \<open>\<^verbatim>\<open>frame[name] = column\<close> on the object at address \<open>a\<close>.\<close>

definition setitem :: "store \<Rightarrow> nat \<Rightarrow> string \<Rightarrow> cell list \<Rightarrow> store" where
  "setitem h a name column = h[a := AList.update name column (h ! a)]"

definition timestamp_cell :: "int option \<Rightarrow> cell" where
  "timestamp_cell t = (case t of None \<Rightarrow> NaT | Some d \<Rightarrow> Timestamp d)"

text \<open>A calendar field of a column of timestamps; \<^verbatim>\<open>NaN\<close> where the timestamp is \<^verbatim>\<open>NaT\<close>.\<close>

definition dt_field :: "(int \<Rightarrow> int) \<Rightarrow> int option list \<Rightarrow> cell list" where
  "dt_field f ts = map (\<lambda>t. case t of None \<Rightarrow> NaN | Some d \<Rightarrow> Num (real_of_int (f d))) ts"

text \<open>
  \<^verbatim>\<open>_create_holiday_indicator\<close>: three fixed holidays in each year that occurs, and
  for each admission date whether it is one of them.
\<close>

definition create_holiday_indicator :: "int option list \<Rightarrow> cell list" where
  "create_holiday_indicator admission_dates =
     (let years = remdups [dt_year d. Some d \<leftarrow> admission_dates];
          holidays =
            concat (map (\<lambda>y. [days_from_civil y 1 1, days_from_civil y 8 15,
                              days_from_civil y 10 2]) years)
      in map (\<lambda>t. case t of None \<Rightarrow> Num 0
                   | Some d \<Rightarrow> if d \<in> set holidays then Num 1 else Num 0) admission_dates)"

text \<open>
  \<^verbatim>\<open>_prepare_data\<close> on the frame at address \<open>a\<close>. The parser of date strings
  (\<^verbatim>\<open>pd.to_datetime\<close> with the format \<^verbatim>\<open>%d/%m/%Y\<close> and \<^verbatim>\<open>errors='coerce'\<close>) is
  the parameter \<open>to_datetime\<close>. Reading a column that the frame lacks raises
  \<^verbatim>\<open>KeyError\<close>. A missing month is in none of the three lists of \<^verbatim>\<open>_get_season\<close>,
  which gives season 3; a missing weekday is not a weekend.
\<close>

definition prepare_data ::
  "(cell \<Rightarrow> int option) \<Rightarrow> store \<Rightarrow> nat \<Rightarrow> store \<times> (py_error + daily_row list)" where
  "prepare_data to_datetime h a =
     (case map_of (h ! a) ''D.O.A'' of
        None \<Rightarrow> (h, Inl KeyError)
      | Some doa \<Rightarrow>
          (let admission_dates = map to_datetime doa;
               h1 = setitem h a ''admission_date'' (map timestamp_cell admission_dates)
           in case map_of (h1 ! a) ''D.O.D'' of
                None \<Rightarrow> (h1, Inl KeyError)
              | Some dod \<Rightarrow>
                  (let h2 = setitem h1 a ''discharge_date''
                              (map (\<lambda>c. timestamp_cell (to_datetime c)) dod);
                       h3 = setitem h2 a ''year'' (dt_field dt_year admission_dates);
                       h4 = setitem h3 a ''month'' (dt_field dt_month admission_dates);
                       h5 = setitem h4 a ''day'' (dt_field dt_day admission_dates);
                       h6 = setitem h5 a ''day_of_week'' (dt_field dt_dayofweek admission_dates);
                       h7 = setitem h6 a ''day_of_year'' (dt_field dt_dayofyear admission_dates);
                       h8 = setitem h7 a ''week_of_year'' (dt_field dt_isoweek admission_dates);
                       h9 = setitem h8 a ''is_weekend''
                              (map (\<lambda>t. case t of None \<Rightarrow> Num 0
                                         | Some d \<Rightarrow> if dt_dayofweek d \<ge> 5 then Num 1 else Num 0)
                                 admission_dates);
                       h10 = setitem h9 a ''season''
                               (map (\<lambda>t. case t of None \<Rightarrow> Num 3
                                          | Some d \<Rightarrow> Num (real_of_int (get_season (dt_month d))))
                                  admission_dates);
                       h11 = setitem h10 a ''is_holiday'' (create_holiday_indicator admission_dates)
                   in (h11, Inr (daily_admissions_of admission_dates)))))"

text \<open>
  \<^verbatim>\<open>__init__\<close>: the caller passes the address of its frame; the predictor copies
  the frame and prepares the copy.
\<close>

definition AdmissionPredictor_init ::
  "(cell \<Rightarrow> int option) \<Rightarrow> store \<Rightarrow> nat \<Rightarrow> store \<times> (py_error + admission_predictor)" where
  "AdmissionPredictor_init to_datetime h admission_data =
     (let (h1, a) = df_copy h admission_data
      in case prepare_data to_datetime h1 a of
           (h2, Inl e) \<Rightarrow> (h2, Inl e)
         | (h2, Inr daily) \<Rightarrow> (h2, Inr \<lparr> data = a, daily_admissions = daily \<rparr>))"

text \<open>
  The public methods as operations on the store and the object. None of them assigns
  to an attribute of \<^verbatim>\<open>self\<close> or to a frame: they read \<^verbatim>\<open>self.daily_admissions\<close>.
\<close>

datatype call = Predict_daily_admissions int | Predict_busy_periods real
  | Analyze_capacity_requirements

datatype outcome = Daily "py_error + daily_result" | Busy "py_error + busy_patterns"
  | Capacity "py_error + peak_requirements"

fun invoke ::
  "regressors \<Rightarrow> store \<times> admission_predictor \<Rightarrow> call \<Rightarrow> (store \<times> admission_predictor) \<times> outcome" where
  "invoke sk (h, self) (Predict_daily_admissions days_ahead) =
     ((h, self), Daily (predict_daily_admissions sk (daily_admissions self) days_ahead))"
| "invoke sk (h, self) (Predict_busy_periods threshold_percentile) =
     ((h, self), Busy (predict_busy_periods sk (daily_admissions self) threshold_percentile))"
| "invoke sk (h, self) Analyze_capacity_requirements =
     ((h, self), Capacity (analyze_capacity_requirements (daily_admissions self)))"

text \<open>A sequence of calls, one after the other.\<close>

fun invoke_all ::
  "regressors \<Rightarrow> store \<times> admission_predictor \<Rightarrow> call list \<Rightarrow> store \<times> admission_predictor" where
  "invoke_all sk w [] = w"
| "invoke_all sk w (c # cs) = invoke_all sk (fst (invoke sk w c)) cs"

text \<open>A parser of dates written \<^verbatim>\<open>dd/mm/yyyy\<close> with digits only, for the examples.\<close>

definition digit_value :: "char \<Rightarrow> int option" where
  "digit_value c =
     (let n = of_char c :: nat in if 48 \<le> n \<and> n \<le> 57 then Some (int n - 48) else None)"

definition parse_dmy :: "cell \<Rightarrow> int option" where
  "parse_dmy c =
     (case c of
        Str [d1, d2, s1, m1, m2, s2, y1, y2, y3, y4] \<Rightarrow>
          (case those (map digit_value [d1, d2, m1, m2, y1, y2, y3, y4]) of
             Some [a1, a2, b1, b2, c1, c2, c3, c4] \<Rightarrow>
               (let dd = 10 * a1 + a2; mm = 10 * b1 + b2;
                    yy = 1000 * c1 + 100 * c2 + 10 * c3 + c4;
                    n = days_from_civil yy mm dd
                in if s1 = CHR ''/'' \<and> s2 = CHR ''/'' \<and> civil_from_days n = (yy, mm, dd)
                   then Some n else None)
           | _ \<Rightarrow> None)
      | _ \<Rightarrow> None)"

text \<open>Estimators for the examples: a constant, and a table over the first feature.\<close>

definition constant_estimator :: "real \<Rightarrow> estimator" where
  "constant_estimator c X y = \<lparr> predict = (\<lambda>v. c), feature_importances = None \<rparr>"


definition constant_regressors :: regressors where
  "constant_regressors =
     \<lparr> RandomForestRegressor = constant_estimator 2,
       GradientBoostingRegressor = constant_estimator (3 / 2),
       LinearRegression = constant_estimator (- 3) \<rparr>"


subsection \<open>The feature vectors, written out\<close>




section \<open>Properties\<close>

subsection \<open>The daily table\<close>

lemma length_shift: "length (shift k xs) = length xs"
  by (simp add: shift_def)

lemma length_rolling_mean: "length (rolling_mean w xs) = length xs"
  by (simp add: rolling_mean_def)

lemma length_add_temporal_features: "length (add_temporal_features df) = length df"
  by (simp add: add_temporal_features_def Let_def)

lemma dates_add_temporal_features:
  "map admission_date (add_temporal_features df) = map fst df"
  by (rule nth_equalityI) (simp_all add: add_temporal_features_def Let_def)

lemma counts_add_temporal_features:
  "map admission_count (add_temporal_features df) = map snd df"
  by (rule nth_equalityI) (simp_all add: add_temporal_features_def Let_def)

lemma set_present: "set [d. Some d \<leftarrow> keys] = {d. Some d \<in> set keys}"
  by (induction keys) (auto split: option.splits)

lemma count_present: "count_list [d. Some d \<leftarrow> keys] d = count_list keys (Some d)"
  by (induction keys) (auto split: option.splits)

lemma keys_groupby_size: "map fst (groupby_size keys) = sort (remdups [d. Some d \<leftarrow> keys])"
  by (simp add: groupby_size_def Let_def comp_def)

lemma sizes_groupby_size:
  "map snd (groupby_size keys) = map (\<lambda>d. int (count_list keys (Some d))) (map fst (groupby_size keys))"
  by (simp add: groupby_size_def Let_def comp_def count_present)

lemma strict_sorted_keys: "sorted_wrt (<) (map fst (groupby_size keys))"
  unfolding keys_groupby_size
  by (simp add: strict_sorted_iff)

text \<open>
  Claim C1, as the code has it. The daily table has one row for each date that occurs
  among the parsed admission dates, and no row for any other date: the dates are
  strictly increasing, each row counts the admissions of its date, and every count is
  at least 1. When the parsed dates span \<open>[d0, dN]\<close> the table has at most
  \<open>dN - d0 + 1\<close> rows, and exactly that many only when an admission was observed on
  every date of the span. No row with count 0 is ever made.
\<close>

theorem daily_admissions_rows:
  "sorted_wrt (<) (map admission_date (daily_admissions_of col)) \<and>
   set (map admission_date (daily_admissions_of col)) = {d. Some d \<in> set col} \<and>
   map admission_count (daily_admissions_of col) =
     map (\<lambda>d. int (count_list col (Some d))) (map admission_date (daily_admissions_of col)) \<and>
   (\<forall>r \<in> set (daily_admissions_of col). 1 \<le> admission_count r) \<and>
   (Some d0 \<in> set col \<and> Some dN \<in> set col \<and> (\<forall>d. Some d \<in> set col \<longrightarrow> d0 \<le> d \<and> d \<le> dN)
      \<longrightarrow> length (daily_admissions_of col) \<le> nat (dN - d0 + 1) \<and>
          (length (daily_admissions_of col) = nat (dN - d0 + 1) \<longleftrightarrow>
             (\<forall>d. d0 \<le> d \<and> d \<le> dN \<longrightarrow> Some d \<in> set col)))"
proof -
  let ?rows = "daily_admissions_of col"
  let ?dates = "map admission_date ?rows"
  have dates: "?dates = map fst (groupby_size col)"
    by (simp add: daily_admissions_of_def dates_add_temporal_features)
  have counts: "map admission_count ?rows = map snd (groupby_size col)"
    by (simp add: daily_admissions_of_def counts_add_temporal_features)
  have s: "sorted_wrt (<) ?dates"
    unfolding dates by (rule strict_sorted_keys)
  have st: "set ?dates = {d. Some d \<in> set col}"
    unfolding dates keys_groupby_size by (simp add: set_present del: set_concat)
  have c: "map admission_count ?rows = map (\<lambda>d. int (count_list col (Some d))) ?dates"
    unfolding counts dates by (rule sizes_groupby_size)
  have pos: "\<forall>r \<in> set ?rows. 1 \<le> admission_count r"
  proof
    fix r assume "r \<in> set ?rows"
    then obtain i where i: "i < length ?rows" "r = ?rows ! i"
      by (auto simp: in_set_conv_nth)
    have "admission_count r = map admission_count ?rows ! i"
      using i by simp
    also have "\<dots> = int (count_list col (Some (?dates ! i)))"
      unfolding c using i by simp
    finally have eq: "admission_count r = int (count_list col (Some (?dates ! i)))" .
    have "?dates ! i \<in> set ?dates"
      using i by (metis length_map nth_mem)
    then have "Some (?dates ! i) \<in> set col"
      using st by auto
    then have "count_list col (Some (?dates ! i)) \<noteq> 0"
      by (simp add: count_list_0_iff)
    with eq show "1 \<le> admission_count r" by simp
  qed
  have len: "length ?rows = card {d. Some d \<in> set col}"
  proof -
    have "distinct ?dates"
      using s by (simp add: strict_sorted_iff)
    then have "card (set ?dates) = length ?dates"
      by (rule distinct_card)
    then show ?thesis using st by simp
  qed
  have bound: "length ?rows \<le> nat (dN - d0 + 1) \<and>
          (length ?rows = nat (dN - d0 + 1) \<longleftrightarrow>
             (\<forall>d. d0 \<le> d \<and> d \<le> dN \<longrightarrow> Some d \<in> set col))"
    if h: "Some d0 \<in> set col \<and> Some dN \<in> set col \<and> (\<forall>d. Some d \<in> set col \<longrightarrow> d0 \<le> d \<and> d \<le> dN)"
  proof -
    have sub: "{d. Some d \<in> set col} \<subseteq> {d0..dN}"
      using h by auto
    have cardI: "card {d0..dN} = nat (dN - d0 + 1)"
      by simp
    have le: "card {d. Some d \<in> set col} \<le> card {d0..dN}"
      by (rule card_mono) (use sub in simp_all)
    have "card {d. Some d \<in> set col} = card {d0..dN} \<longleftrightarrow> {d. Some d \<in> set col} = {d0..dN}"
      using sub by (metis card_subset_eq finite_atLeastAtMost_int)
    also have "\<dots> \<longleftrightarrow> (\<forall>d. d0 \<le> d \<and> d \<le> dN \<longrightarrow> Some d \<in> set col)"
      using sub by auto
    finally show ?thesis
      using le cardI len by simp
  qed
  from s st c pos bound show ?thesis by blast
qed

theorem daily_admissions_rows_witness:
  "Some 0 \<in> set [Some 2, None, Some 0, Some (2::int)] \<and>
   Some 2 \<in> set [Some 2, None, Some 0, Some (2::int)] \<and>
   {d. Some d \<in> set [Some 2, None, Some 0, Some (2::int)]} = {0, 2} \<and>
   sorted_wrt (<) (map admission_date (daily_admissions_of [Some 2, None, Some 0, Some 2])) \<and>
   set (map admission_date (daily_admissions_of [Some 2, None, Some 0, Some 2])) = {0, 2} \<and>
   length (daily_admissions_of [Some 2, None, Some 0, Some 2]) \<le> nat (2 - 0 + 1)"
proof -
  have h: "Some 0 \<in> set [Some 2, None, Some 0, Some (2::int)] \<and>
    Some 2 \<in> set [Some 2, None, Some 0, Some (2::int)] \<and>
    (\<forall>d. Some d \<in> set [Some 2, None, Some 0, Some (2::int)] \<longrightarrow> 0 \<le> d \<and> d \<le> 2)"
    by simp
  have e: "{d. Some d \<in> set [Some 2, None, Some 0, Some (2::int)]} = {0, 2}"
    by auto
  from h e daily_admissions_rows [of "[Some 2, None, Some 0, Some 2]" 0 2]
  show ?thesis by simp
qed

text \<open>
  Claim C1 as stated fails: with admissions on day 0 and on day 2 only, the table has
  two rows, for day 0 and day 2, and none for day 1.
\<close>

theorem daily_admissions_gap_counterexample:
  "map admission_date (daily_admissions_of [Some 0, Some 2]) = [0, 2] \<and>
   map admission_count (daily_admissions_of [Some 0, Some 2]) = [1, 1] \<and>
   length (daily_admissions_of [Some 0, Some 2]) \<noteq> nat (2 - 0 + 1)"
  by (simp add: daily_admissions_of_def dates_add_temporal_features counts_add_temporal_features length_add_temporal_features
       groupby_size_def)


subsection \<open>Feature-complete rows\<close>

lemma shift_nth:
  "i < length xs \<Longrightarrow> shift k xs ! i = (if i < k then None else Some (xs ! (i - k)))"
  by (auto simp: shift_def nth_append)

lemma rolling_mean_nth:
  "i < length xs \<Longrightarrow>
   rolling_mean w xs ! i =
     (if i + 1 < w then None else Some (mean (take w (drop (i + 1 - w) xs))))"
  by (simp add: rolling_mean_def)

lemma complete_row_iff:
  "list_all (\<lambda>(name, v). v \<noteq> None) (columns r) \<longleftrightarrow>
     admission_count_lag_1 r \<noteq> None \<and> admission_count_lag_3 r \<noteq> None \<and>
     admission_count_lag_7 r \<noteq> None \<and> admission_count_lag_14 r \<noteq> None \<and>
     admission_count_lag_30 r \<noteq> None \<and> admission_count_rolling_3 r \<noteq> None \<and>
     admission_count_rolling_7 r \<noteq> None \<and> admission_count_rolling_14 r \<noteq> None \<and>
     admission_count_rolling_30 r \<noteq> None"
  by (simp add: columns_def)

lemma length_dropna_le: "length (dropna df) \<le> length df"
  by (simp add: dropna_def)

lemma shift_defined:
  "i < length xs \<Longrightarrow> (\<exists>y. shift k xs ! i = Some y) \<longleftrightarrow> k \<le> i"
  by (simp add: shift_nth)

lemma rolling_mean_defined:
  "i < length xs \<Longrightarrow> (\<exists>y. rolling_mean w xs ! i = Some y) \<longleftrightarrow> w \<le> i + 1"
  by (simp add: rolling_mean_nth)

lemma complete_row_nth:
  assumes "i < length df"
  shows "list_all (\<lambda>(name, v). v \<noteq> None) (columns (add_temporal_features df ! i)) \<longleftrightarrow> 30 \<le> i"
proof -
  have i: "i < length (map (\<lambda>r. real_of_int (snd r)) df)"
    using assms by simp
  show ?thesis
    unfolding complete_row_iff
    using assms
    by (simp add: add_temporal_features_def Let_def shift_defined [OF i] rolling_mean_defined [OF i])
      linarith
qed

lemma filter_map_upt_ge:
  "filter P (map f [0..<n]) = map f [k..<n]" if "\<And>i. i < n \<Longrightarrow> P (f i) \<longleftrightarrow> k \<le> i"
proof -
  have "filter P (map f [0..<n]) = map f (filter (\<lambda>i. P (f i)) [0..<n])"
    by (simp add: filter_map comp_def)
  also have "filter (\<lambda>i. P (f i)) [0..<n] = filter (\<lambda>i. k \<le> i) [0..<n]"
    by (rule filter_cong) (use that in auto)
  also have "\<dots> = [k..<n]"
  proof (cases "k \<le> n")
    case True
    then have "[0..<n] = [0..<k] @ [k..<n]"
      by (metis le0 upt_add_eq_append le_add_diff_inverse)
    then show ?thesis by (simp add: filter_empty_conv)
  next
    case False
    then show ?thesis by (auto simp: filter_empty_conv)
  qed
  finally show ?thesis .
qed

lemma filter_eq_drop:
  assumes "\<And>i. i < length xs \<Longrightarrow> P (xs ! i) \<longleftrightarrow> k \<le> i"
  shows "filter P xs = drop k xs"
proof -
  have "filter P (map ((!) xs) [0..<length xs]) = map ((!) xs) [k..<length xs]"
    by (rule filter_map_upt_ge) (use assms in simp)
  also have "\<dots> = drop k (map ((!) xs) [0..<length xs])"
    by (simp add: drop_map)
  finally show ?thesis by (simp add: map_nth)
qed

lemma dropna_add_temporal_features:
  "dropna (add_temporal_features df) = drop 30 (add_temporal_features df)"
  unfolding dropna_def
  by (rule filter_eq_drop) (simp add: complete_row_nth length_add_temporal_features del: not_None_eq)

lemma length_dropna_daily:
  "length (dropna (daily_admissions_of col)) = length (daily_admissions_of col) - 30"
  by (simp add: daily_admissions_of_def dropna_add_temporal_features)

subsection \<open>Selections and the prediction loop\<close>

lemma those_map_Some: "those (map (\<lambda>x. Some (f x)) xs) = Some (map f xs)"
  by (induction xs) simp_all

lemma getitem_columns:
  "getitem feature_cols (columns r) =
     Some [Some (real_of_int (month r)), Some (real_of_int (day_of_week r)),
           Some (real_of_int (day_of_year r)), Some (real_of_int (week_of_year r)),
           Some (real_of_int (is_weekend r)), Some (real_of_int (season r)),
           admission_count_lag_1 r, admission_count_lag_3 r, admission_count_lag_7 r,
           admission_count_rolling_3 r, admission_count_rolling_7 r]"
  by (simp add: getitem_def feature_cols_def columns_def)

lemma getitem_future_features:
  "getitem feature_cols (future_features daily d) =
     Some [Some (real_of_int (dt_month d)), Some (real_of_int (dt_dayofweek d)),
           Some (real_of_int (dt_dayofyear d)), Some (real_of_int (dt_isoweek d)),
           Some (if dt_dayofweek d \<ge> 5 then 1 else 0),
           Some (real_of_int (get_season (dt_month d))),
           Some (mean (map (\<lambda>r. real_of_int (admission_count r)) (tail 30 daily))),
           Some (mean (map (\<lambda>r. real_of_int (admission_count r)) (tail 30 daily))),
           Some (mean (map (\<lambda>r. real_of_int (admission_count r)) (tail 30 daily))),
           Some (mean (map (\<lambda>r. real_of_int (admission_count r)) (tail 30 daily))),
           Some (mean (map (\<lambda>r. real_of_int (admission_count r)) (tail 30 daily)))]"
  by (simp add: getitem_def feature_cols_def future_features_def Let_def)

lemma prediction_loop_append:
  "prediction_loop mp cols daily ds acc = Inr out \<Longrightarrow>
   \<exists>new. out = acc @ new \<and> length new = length ds \<and>
     map date new = map strftime_ymd ds \<and>
     list_all (\<lambda>p. \<exists>x. predicted_admissions p = max 0 (py_round x)) new"
proof (induction ds arbitrary: acc)
  case Nil
  then show ?case by simp
next
  case (Cons d ds)
  from Cons.prems obtain X_pred where X: "getitem cols (future_features daily d) = Some X_pred"
    and rest: "prediction_loop mp cols daily ds
        (acc @ [\<lparr> date = strftime_ymd d, predicted_admissions = max 0 (py_round (mp X_pred)) \<rparr>]) = Inr out"
    by (auto split: option.splits)
  from Cons.IH [OF rest] obtain new where new: "out = (acc @ [\<lparr> date = strftime_ymd d, predicted_admissions = max 0 (py_round (mp X_pred)) \<rparr>]) @ new"
     "length new = length ds" "map date new = map strftime_ymd ds"
     "list_all (\<lambda>p. \<exists>x. predicted_admissions p = max 0 (py_round x)) new"
    by blast
  show ?case
    by (rule exI [of _ "\<lparr> date = strftime_ymd d, predicted_admissions = max 0 (py_round (mp X_pred)) \<rparr> # new"])
       (use new in auto)
qed

lemma prediction_loop_feature_cols:
  "prediction_loop mp feature_cols daily ds acc =
     Inr (acc @ map (\<lambda>d. \<lparr> date = strftime_ymd d,
        predicted_admissions = max 0 (py_round (mp
          [Some (real_of_int (dt_month d)), Some (real_of_int (dt_dayofweek d)),
           Some (real_of_int (dt_dayofyear d)), Some (real_of_int (dt_isoweek d)),
           Some (if dt_dayofweek d \<ge> 5 then 1 else 0),
           Some (real_of_int (get_season (dt_month d))),
           Some (mean (map (\<lambda>r. real_of_int (admission_count r)) (tail 30 daily))),
           Some (mean (map (\<lambda>r. real_of_int (admission_count r)) (tail 30 daily))),
           Some (mean (map (\<lambda>r. real_of_int (admission_count r)) (tail 30 daily))),
           Some (mean (map (\<lambda>r. real_of_int (admission_count r)) (tail 30 daily))),
           Some (mean (map (\<lambda>r. real_of_int (admission_count r)) (tail 30 daily)))])) \<rparr>) ds)"
  by (induction ds arbitrary: acc) (simp_all add: getitem_future_features)

lemma series_max_Max: "xs \<noteq> [] \<Longrightarrow> series_max xs = Some (Max (set xs))"
  by (cases xs) (simp_all add: Max.set_eq_fold del: set_simps)

lemma future_dates: "map (\<lambda>i. last_date + (i + 1)) [0..h - 1] = [last_date + 1..last_date + h]"
proof (rule nth_equalityI)
  show "length (map (\<lambda>i. last_date + (i + 1)) [0..h - 1]) = length [last_date + 1..last_date + h]"
    by simp
next
  fix i assume "i < length (map (\<lambda>i. last_date + (i + 1)) [0..h - 1])"
  then have i: "int i < h" by simp
  then show "map (\<lambda>i. last_date + (i + 1)) [0..h - 1] ! i = [last_date + 1..last_date + h] ! i"
    by simp
qed

subsection \<open>Model selection and the forecast\<close>

lemma max_loop_inv:
  assumes "i0 < length pre" "pre ! i0 = best"
    and "\<forall>j<length pre. key (pre ! j) \<le> key best"
    and "\<forall>j<i0. key (pre ! j) < key best"
  shows "\<exists>i<length (pre @ xs). (pre @ xs) ! i = max_loop key best xs \<and>
           (\<forall>j<length (pre @ xs). key ((pre @ xs) ! j) \<le> key (max_loop key best xs)) \<and>
           (\<forall>j<i. key ((pre @ xs) ! j) < key (max_loop key best xs))"
  using assms
proof (induction xs arbitrary: pre i0 best)
  case Nil
  then show ?case by auto
next
  case (Cons x xs)
  let ?best = "if key x > key best then x else best"
  let ?i0 = "if key x > key best then length pre else i0"
  have 1: "?i0 < length (pre @ [x])"
    using Cons.prems(1) by simp
  have 2: "(pre @ [x]) ! ?i0 = ?best"
    using Cons.prems(1,2) by (simp add: nth_append)
  have 3: "\<forall>j<length (pre @ [x]). key ((pre @ [x]) ! j) \<le> key ?best"
  proof (intro allI impI)
    fix j assume "j < length (pre @ [x])"
    then consider "j < length pre" | "j = length pre" by fastforce
    then show "key ((pre @ [x]) ! j) \<le> key ?best"
    proof cases
      case 1
      then have "key (pre ! j) \<le> key best" using Cons.prems(3) by blast
      with 1 show ?thesis by (simp add: nth_append)
    next
      case 2
      then show ?thesis by simp
    qed
  qed
  have 4: "\<forall>j<?i0. key ((pre @ [x]) ! j) < key ?best"
  proof (intro allI impI)
    fix j assume j: "j < ?i0"
    show "key ((pre @ [x]) ! j) < key ?best"
    proof (cases "key x > key best")
      case True
      then have "j < length pre" using j by simp
      moreover from this have "key (pre ! j) \<le> key best" using Cons.prems(3) by blast
      ultimately show ?thesis using True by (simp add: nth_append)
    next
      case False
      then have "j < i0" using j by simp
      moreover from this have "key (pre ! j) < key best" using Cons.prems(4) by blast
      ultimately show ?thesis using False Cons.prems(1) by (simp add: nth_append)
    qed
  qed
  from Cons.IH [OF 1 2 3 4] show ?case by simp
qed

lemma py_max_first_greatest:
  assumes "xs \<noteq> []"
  shows "\<exists>i<length xs. py_max key xs = Inr (xs ! i) \<and>
           (\<forall>j<length xs. key (xs ! j) \<le> key (xs ! i)) \<and>
           (\<forall>j<i. key (xs ! j) < key (xs ! i))"
proof -
  from assms obtain x rest where xs: "xs = x # rest" by (cases xs) auto
  have "\<exists>i<length ([x] @ rest). ([x] @ rest) ! i = max_loop key x rest \<and>
           (\<forall>j<length ([x] @ rest). key (([x] @ rest) ! j) \<le> key (max_loop key x rest)) \<and>
           (\<forall>j<i. key (([x] @ rest) ! j) < key (max_loop key x rest))"
    by (rule max_loop_inv [where ?i0.0 = 0]) simp_all
  then obtain i where "i < length xs" "xs ! i = max_loop key x rest"
     "\<forall>j<length xs. key (xs ! j) \<le> key (max_loop key x rest)"
     "\<forall>j<i. key (xs ! j) < key (max_loop key x rest)"
    unfolding xs by auto
  then show ?thesis
    unfolding xs py_max_def by (intro exI [of _ i]) simp
qed

lemma length_train_models: "length (train_models sk X_train X_test y_train y_test) = 3"
  by (simp add: train_models_def)


lemma select_best_train_models:
  "\<exists>i<3. select_best (train_models sk X_train X_test y_train y_test) =
             Inr (train_models sk X_train X_test y_train y_test ! i) \<and>
     (\<forall>j<3. r2 (snd (snd (train_models sk X_train X_test y_train y_test ! j)))
             \<le> r2 (snd (snd (train_models sk X_train X_test y_train y_test ! i)))) \<and>
     (\<forall>j<i. r2 (snd (snd (train_models sk X_train X_test y_train y_test ! j)))
             < r2 (snd (snd (train_models sk X_train X_test y_train y_test ! i))))"
proof -
  let ?ms = "train_models sk X_train X_test y_train y_test"
  have "?ms \<noteq> []" by (simp add: train_models_def)
  from py_max_first_greatest [OF this, of "\<lambda>(name, model, m). r2 m"]
  show ?thesis
    unfolding select_best_def length_train_models
    by (simp add: case_prod_unfold)
qed

lemma generate_future_predictions_Inr:
  assumes "daily \<noteq> []"
  shows "\<exists>future. generate_future_predictions mp feature_cols daily h = Inr future \<and>
           length future = nat h \<and>
           map date future =
             map strftime_ymd [Max (set (map admission_date daily)) + 1..
                               Max (set (map admission_date daily)) + h] \<and>
           list_all (\<lambda>p. \<exists>x. predicted_admissions p = max 0 (py_round x)) future"
proof -
  let ?last = "Max (set (map admission_date daily))"
  have sm: "series_max (map admission_date daily) = Some ?last"
    using assms by (intro series_max_Max) simp
  obtain out where out: "prediction_loop mp feature_cols daily [?last + 1..?last + h] [] = Inr out"
    by (simp add: prediction_loop_feature_cols)
  from prediction_loop_append [OF out] have
    "length out = length [?last + 1..?last + h]"
    "map date out = map strftime_ymd [?last + 1..?last + h]"
    "list_all (\<lambda>p. \<exists>x. predicted_admissions p = max 0 (py_round x)) out"
    by auto
  moreover have "generate_future_predictions mp feature_cols daily h = Inr out"
    unfolding generate_future_predictions_def sm using out by (simp add: future_dates)
  ultimately show ?thesis by simp
qed

lemma predict_daily_admissions_sufficient:
  assumes "30 \<le> length (dropna daily)"
  shows "\<exists>X_train X_test y_train y_test name best m future.
      select_best (train_models sk X_train X_test y_train y_test) = Inr (name, best, m) \<and>
      generate_future_predictions (predict best) feature_cols daily h = Inr future \<and>
      predict_daily_admissions sk daily h =
        Inr (Forecast_dict
          \<lparr> best_model = name,
            model_metrics =
              map (\<lambda>(name, model, m). (name, m)) (train_models sk X_train X_test y_train y_test),
            future_predictions = future,
            feature_importance = get_feature_importance best feature_cols \<rparr>)"
proof -
  let ?clean = "dropna daily"
  have ne: "daily \<noteq> []"
    using assms by (auto simp: dropna_def)
  obtain X where X: "those (map (\<lambda>r. getitem feature_cols (columns r)) ?clean) = Some X"
    by (simp add: getitem_columns those_map_Some)
  obtain X_train X_test y_train y_test where
    split: "train_test_split X (map (\<lambda>r. real_of_int (admission_count r)) ?clean) =
              (X_train, X_test, y_train, y_test)"
    by (metis prod_cases4)
  let ?ms = "train_models sk X_train X_test y_train y_test"
  obtain name best m where best: "select_best ?ms = Inr (name, best, m)"
    using select_best_train_models [of sk X_train X_test y_train y_test]
    by (metis prod_cases3)
  obtain future where future:
    "generate_future_predictions (predict best) feature_cols daily h = Inr future"
    using generate_future_predictions_Inr [OF ne] by blast
  have "predict_daily_admissions sk daily h =
        Inr (Forecast_dict
          \<lparr> best_model = name,
            model_metrics = map (\<lambda>(name, model, m). (name, m)) ?ms,
            future_predictions = future,
            feature_importance = get_feature_importance best feature_cols \<rparr>)"
    using assms by (simp add: predict_daily_admissions_def Let_def X split best future)
  with best future show ?thesis by blast
qed

lemma predict_daily_admissions_insufficient:
  "length (dropna daily) < 30 \<Longrightarrow>
   predict_daily_admissions sk daily h = Inr (Error_dict ''Insufficient data for prediction'')"
  by (simp add: predict_daily_admissions_def)

lemma length_daily_admissions_of:
  "length (daily_admissions_of col) = length (remdups [d. Some d \<leftarrow> col])"
  by (simp add: daily_admissions_of_def length_add_temporal_features groupby_size_def Let_def)

lemma present_map_Some: "[d. Some d \<leftarrow> map Some xs] = xs"
  by (induction xs) simp_all

lemma length_daily_consecutive:
  "length (daily_admissions_of (map Some [i..j])) = nat (j - i + 1)"
  unfolding length_daily_admissions_of present_map_Some
  by (simp add: distinct_remdups_id)

subsection \<open>Claims about the daily predictions\<close>

lemma py_round_nearest: "\<bar>real_of_int (py_round x) - x\<bar> \<le> 1 / 2"
proof -
  have "real_of_int \<lfloor>x\<rfloor> \<le> x" "x < real_of_int \<lfloor>x\<rfloor> + 1"
    by linarith+
  then show ?thesis
    by (auto simp: py_round_def Let_def)
qed

lemma prediction_loop_raw:
  "prediction_loop mp cols daily ds acc = Inr out \<Longrightarrow>
   \<exists>new. out = acc @ new \<and>
     list_all (\<lambda>p. \<exists>X_pred. predicted_admissions p = max 0 (py_round (mp X_pred))) new"
proof (induction ds arbitrary: acc)
  case Nil
  then show ?case by simp
next
  case (Cons d ds)
  from Cons.prems obtain X_pred where
    rest: "prediction_loop mp cols daily ds
        (acc @ [\<lparr> date = strftime_ymd d, predicted_admissions = max 0 (py_round (mp X_pred)) \<rparr>]) = Inr out"
    by (auto split: option.splits)
  from Cons.IH [OF rest] obtain new where new:
     "out = (acc @ [\<lparr> date = strftime_ymd d, predicted_admissions = max 0 (py_round (mp X_pred)) \<rparr>]) @ new"
     "list_all (\<lambda>p. \<exists>X_pred. predicted_admissions p = max 0 (py_round (mp X_pred))) new"
    by blast
  show ?case
    by (rule exI [of _ "\<lparr> date = strftime_ymd d, predicted_admissions = max 0 (py_round (mp X_pred)) \<rparr> # new"])
       (use new in auto)
qed

lemma generate_future_predictions_raw:
  assumes "generate_future_predictions mp cols daily h = Inr future"
  shows "list_all (\<lambda>p. \<exists>X_pred. predicted_admissions p = max 0 (py_round (mp X_pred))) future"
proof (cases "series_max (map admission_date daily)")
  case None
  with assms show ?thesis
    by (auto simp: generate_future_predictions_def split: if_splits)
next
  case (Some last_date)
  with assms have "prediction_loop mp cols daily (map (\<lambda>i. last_date + (i + 1)) [0..h - 1]) [] = Inr future"
    by (simp add: generate_future_predictions_def)
  from prediction_loop_raw [OF this] show ?thesis by simp
qed

text \<open>
  Claim C2, as the code has it. With fewer than 30 feature-complete rows (the rows
  that \<^verbatim>\<open>dropna\<close> keeps: those whose lag and rolling fields are all defined)
  \<^verbatim>\<open>predict_daily_admissions\<close> raises nothing: it returns the dictionary with the
  single entry \<^verbatim>\<open>'error': 'Insufficient data for prediction'\<close>, whatever the
  estimators and the horizon, and trains no model.
\<close>

theorem insufficient_data_returns_error_entry:
  "length (dropna daily) < 30 \<Longrightarrow>
   predict_daily_admissions sk daily days_ahead =
     Inr (Error_dict ''Insufficient data for prediction'')"
  by (simp add: predict_daily_admissions_def)

text \<open>An instance: two days of admissions, none of them feature-complete.\<close>

theorem insufficient_data_returns_error_entry_witness:
  "length (dropna (daily_admissions_of [Some 0, Some 2])) < 30 \<and>
   predict_daily_admissions constant_regressors (daily_admissions_of [Some 0, Some 2]) 7 =
     Inr (Error_dict ''Insufficient data for prediction'')"
proof -
  have h: "length (dropna (daily_admissions_of [Some 0, Some 2])) < 30"
    using length_dropna_le [of "daily_admissions_of [Some 0, Some 2]"]
    by (simp add: length_daily_admissions_of)
  from h insufficient_data_returns_error_entry [OF h, of constant_regressors 7]
  show ?thesis by simp
qed

text \<open>
  Claim C2 as stated fails: with 40 consecutive days of admissions, of which 10 rows
  are feature-complete, the call returns the error dictionary to the caller instead
  of raising.
\<close>

theorem insufficient_data_not_raised_counterexample:
  "length (dropna (daily_admissions_of (map Some [0..39]))) = 10 \<and>
   predict_daily_admissions constant_regressors (daily_admissions_of (map Some [0..39])) 30 =
     Inr (Error_dict ''Insufficient data for prediction'')"
proof -
  have "length (dropna (daily_admissions_of (map Some [0..39]))) = 10"
    by (simp add: length_dropna_daily length_daily_consecutive)
  then show ?thesis
    by (simp add: predict_daily_admissions_insufficient)
qed









text \<open>
  Claim C6. Every point that \<^verbatim>\<open>_generate_future_predictions\<close> returns carries
  \<open>max 0 (round x)\<close>, where \<open>x\<close> is the prediction of the model on some feature
  vector and \<open>round x\<close> is an integer at most \<open>1/2\<close> away from \<open>x\<close>; so it is an
  integer and not negative. The same then holds for every point in the forecast that
  \<^verbatim>\<open>predict_daily_admissions\<close> returns.
\<close>

theorem predicted_admissions_rounded_nonnegative:
  "(generate_future_predictions mp cols daily h = Inr future \<longrightarrow>
      list_all (\<lambda>p. \<exists>X_pred. predicted_admissions p = max 0 (py_round (mp X_pred)) \<and>
                   \<bar>real_of_int (py_round (mp X_pred)) - mp X_pred\<bar> \<le> 1 / 2 \<and>
                   0 \<le> predicted_admissions p) future) \<and>
   (predict_daily_admissions sk daily h = Inr (Forecast_dict f) \<longrightarrow>
      list_all (\<lambda>p. 0 \<le> predicted_admissions p) (future_predictions f))"
proof (intro conjI impI)
  assume "generate_future_predictions mp cols daily h = Inr future"
  from generate_future_predictions_raw [OF this]
  show "list_all (\<lambda>p. \<exists>X_pred. predicted_admissions p = max 0 (py_round (mp X_pred)) \<and>
                   \<bar>real_of_int (py_round (mp X_pred)) - mp X_pred\<bar> \<le> 1 / 2 \<and>
                   0 \<le> predicted_admissions p) future"
    unfolding list_all_iff using py_round_nearest by fastforce
next
  assume a: "predict_daily_admissions sk daily h = Inr (Forecast_dict f)"
  have suff: "30 \<le> length (dropna daily)"
  proof (rule ccontr)
    assume "\<not> 30 \<le> length (dropna daily)"
    then have "predict_daily_admissions sk daily h =
        Inr (Error_dict ''Insufficient data for prediction'')"
      by (simp add: predict_daily_admissions_insufficient)
    with a show False by simp
  qed
  from predict_daily_admissions_sufficient [OF suff, of sk h]
  obtain X_train X_test y_train y_test name best m future where
    gen: "generate_future_predictions (predict best) feature_cols daily h = Inr future" and
    res: "predict_daily_admissions sk daily h =
        Inr (Forecast_dict
          \<lparr> best_model = name,
            model_metrics =
              map (\<lambda>(name, model, m). (name, m)) (train_models sk X_train X_test y_train y_test),
            future_predictions = future,
            feature_importance = get_feature_importance best feature_cols \<rparr>)"
    by blast
  from a res have "future_predictions f = future" by auto
  moreover from generate_future_predictions_raw [OF gen]
  have "list_all (\<lambda>p. 0 \<le> predicted_admissions p) future"
    unfolding list_all_iff by fastforce
  ultimately show "list_all (\<lambda>p. 0 \<le> predicted_admissions p) (future_predictions f)" by simp
qed

text \<open>
  Instances: a model that always predicts \<open>-5/2\<close>, whose points are clamped to 0; and
  the forecast over 60 consecutive days of admissions.
\<close>

theorem predicted_admissions_rounded_nonnegative_witness:
  "generate_future_predictions (\<lambda>v. - 5 / 2) feature_cols (daily_admissions_of [Some 0]) 2 =
     Inr [\<lparr>date = ''1970-01-02'', predicted_admissions = 0\<rparr>,
          \<lparr>date = ''1970-01-03'', predicted_admissions = 0\<rparr>] \<and>
   list_all (\<lambda>p. 0 \<le> predicted_admissions p)
     [\<lparr>date = ''1970-01-02'', predicted_admissions = 0\<rparr>,
      \<lparr>date = ''1970-01-03'', predicted_admissions = 0\<rparr>] \<and>
   (\<exists>f. predict_daily_admissions constant_regressors (daily_admissions_of (map Some [0..59])) 7 =
          Inr (Forecast_dict f) \<and>
        list_all (\<lambda>p. 0 \<le> predicted_admissions p) (future_predictions f))"
proof -
  have g: "generate_future_predictions (\<lambda>v. - 5 / 2) feature_cols (daily_admissions_of [Some 0]) 2 =
     Inr [\<lparr>date = ''1970-01-02'', predicted_admissions = 0\<rparr>,
          \<lparr>date = ''1970-01-03'', predicted_admissions = 0\<rparr>]"
    by code_simp
  have 1: "list_all (\<lambda>p. 0 \<le> predicted_admissions p)
     [\<lparr>date = ''1970-01-02'', predicted_admissions = 0\<rparr>,
      \<lparr>date = ''1970-01-03'', predicted_admissions = 0\<rparr>]"
    using predicted_admissions_rounded_nonnegative
      [of "\<lambda>v. - 5 / 2" feature_cols "daily_admissions_of [Some 0]" 2
        "[\<lparr>date = ''1970-01-02'', predicted_admissions = 0\<rparr>,
          \<lparr>date = ''1970-01-03'', predicted_admissions = 0\<rparr>]"] g
    by simp
  have "30 \<le> length (dropna (daily_admissions_of (map Some [0..59])))"
    by (simp add: length_dropna_daily length_daily_consecutive)
  from predict_daily_admissions_sufficient [OF this, of constant_regressors 7]
  obtain f where f:
    "predict_daily_admissions constant_regressors (daily_admissions_of (map Some [0..59])) 7 =
       Inr (Forecast_dict f)"
    by blast
  have "list_all (\<lambda>p. 0 \<le> predicted_admissions p) (future_predictions f)"
    using predicted_admissions_rounded_nonnegative
      [where sk = constant_regressors and daily = "daily_admissions_of (map Some [0..59])"
         and h = 7 and f = f] f
    by blast
  with f have 2: "\<exists>f. predict_daily_admissions constant_regressors
          (daily_admissions_of (map Some [0..59])) 7 = Inr (Forecast_dict f) \<and>
        list_all (\<lambda>p. 0 \<le> predicted_admissions p) (future_predictions f)"
    by (intro exI [of _ f] conjI)
  from g 1 2 show ?thesis by (intro conjI)
qed




subsection \<open>Percentiles and busy periods\<close>

lemma lerp_bounds:
  fixes a b g :: real
  assumes "a \<le> b" "0 \<le> g" "g \<le> 1"
  shows "a \<le> a + (b - a) * g" and "a + (b - a) * g \<le> b"
proof -
  have "0 \<le> (b - a) * g"
    using assms by simp
  then show "a \<le> a + (b - a) * g" by simp
  have "(b - a) * g \<le> (b - a) * 1"
    using assms by (intro mult_left_mono) simp_all
  then show "a + (b - a) * g \<le> b" by simp
qed

lemma interpolation_mono:
  fixes arr :: "real list" and v1 v2 :: real
  assumes srt: "sorted arr" and ne: "arr \<noteq> []"
    and v: "0 \<le> v1" "v1 \<le> v2" "v2 \<le> real (length arr - 1)"
  shows "arr ! nat \<lfloor>v1\<rfloor> +
           (arr ! min (nat \<lfloor>v1\<rfloor> + 1) (length arr - 1) - arr ! nat \<lfloor>v1\<rfloor>) *
             (v1 - real (nat \<lfloor>v1\<rfloor>))
         \<le> arr ! nat \<lfloor>v2\<rfloor> +
           (arr ! min (nat \<lfloor>v2\<rfloor> + 1) (length arr - 1) - arr ! nat \<lfloor>v2\<rfloor>) *
             (v2 - real (nat \<lfloor>v2\<rfloor>))"
proof -
  let ?n = "length arr"
  let ?k1 = "nat \<lfloor>v1\<rfloor>" and ?k2 = "nat \<lfloor>v2\<rfloor>"
  let ?n1 = "min (?k1 + 1) (?n - 1)" and ?n2 = "min (?k2 + 1) (?n - 1)"
  let ?g1 = "v1 - real ?k1" and ?g2 = "v2 - real ?k2"
  have n: "0 < ?n" using ne by simp
  have k12: "?k1 \<le> ?k2"
    using v by (intro nat_mono floor_mono)
  have "\<lfloor>v2\<rfloor> \<le> int (?n - 1)"
    using v(3) by (simp add: floor_le_iff)
  then have k2: "?k2 \<le> ?n - 1" by simp
  have g1: "0 \<le> ?g1" "?g1 \<le> 1" using v by linarith+
  have g2: "0 \<le> ?g2" "?g2 \<le> 1" using v by linarith+
  have n1: "?n1 < ?n" "?k1 \<le> ?n1" using n k12 k2 by linarith+
  have n2: "?n2 < ?n" "?k2 \<le> ?n2" using n k2 by linarith+
  have a1: "arr ! ?k1 \<le> arr ! ?n1"
    using srt n1 by (intro sorted_nth_mono) simp_all
  have a2: "arr ! ?k2 \<le> arr ! ?n2"
    using srt n2 by (intro sorted_nth_mono) simp_all
  show ?thesis
  proof (cases "?k1 = ?k2")
    case True
    have "?g1 \<le> ?g2" using v True by simp
    then have "(arr ! ?n2 - arr ! ?k2) * ?g1 \<le> (arr ! ?n2 - arr ! ?k2) * ?g2"
      using a2 by (intro mult_left_mono) simp_all
    then show ?thesis using True by simp
  next
    case False
    then have lt: "?k1 + 1 \<le> ?k2" using k12 by simp
    then have "?n1 \<le> ?k2" by simp
    moreover have "?k2 < ?n" using k2 n by linarith
    ultimately have mid: "arr ! ?n1 \<le> arr ! ?k2"
      using srt by (intro sorted_nth_mono)
    have "arr ! ?k1 + (arr ! ?n1 - arr ! ?k1) * ?g1 \<le> arr ! ?n1"
      by (rule lerp_bounds(2) [OF a1 g1])
    also note mid
    also have "arr ! ?k2 \<le> arr ! ?k2 + (arr ! ?n2 - arr ! ?k2) * ?g2"
      by (rule lerp_bounds(1) [OF a2 g2])
    finally show ?thesis .
  qed
qed

lemma sort_nonempty: "a \<noteq> [] \<Longrightarrow> sort a \<noteq> []"
  by (metis length_sort length_0_conv)

lemma np_percentile_Inr:
  assumes "a \<noteq> []" "0 \<le> q" "q \<le> 100"
  shows "np_percentile a q =
     Inr (sort a ! nat \<lfloor>real (length a - 1) * (q / 100)\<rfloor> +
          (sort a ! min (nat \<lfloor>real (length a - 1) * (q / 100)\<rfloor> + 1) (length a - 1) -
           sort a ! nat \<lfloor>real (length a - 1) * (q / 100)\<rfloor>) *
          (real (length a - 1) * (q / 100) - real (nat \<lfloor>real (length a - 1) * (q / 100)\<rfloor>)))"
  using assms by (simp add: np_percentile_def Let_def)

lemma np_percentile_mono:
  assumes ne: "a \<noteq> []" and q: "0 \<le> q1" "q1 \<le> q2" "q2 \<le> 100"
  shows "\<exists>t1 t2. np_percentile a q1 = Inr t1 \<and> np_percentile a q2 = Inr t2 \<and> t1 \<le> t2"
proof -
  let ?v1 = "real (length a - 1) * (q1 / 100)" and ?v2 = "real (length a - 1) * (q2 / 100)"
  have s: "sorted (sort a)" "sort a \<noteq> []" "length (sort a) = length a"
    using ne by (simp_all add: sort_nonempty)
  have v1: "0 \<le> ?v1" using q by simp
  have v12: "?v1 \<le> ?v2" using q by (intro mult_left_mono) simp_all
  have "(q2 / 100) \<le> 1" using q by simp
  then have "?v2 \<le> real (length a - 1) * 1"
    by (intro mult_left_mono) simp_all
  then have v2: "?v2 \<le> real (length (sort a) - 1)" by simp
  from interpolation_mono [OF s(1,2) v1 v12 v2]
  show ?thesis
    using ne q by (simp add: np_percentile_Inr)
qed

lemma np_percentile_out_of_range:
  "q < 0 \<or> 100 < q \<Longrightarrow> np_percentile a q = Inl ValueError"
  by (auto simp: np_percentile_def)

lemma np_percentile_zero:
  assumes "a \<noteq> []"
  shows "np_percentile a 0 = Inr (Min (set a))"
proof -
  have "sort a \<noteq> []" using assms by (rule sort_nonempty)
  then obtain x xs where xs: "sort a = x # xs" by (cases "sort a") auto
  have "sorted (x # xs)" using xs by (metis sorted_sort)
  then have "\<forall>y \<in> set (x # xs). x \<le> y" by auto
  then have "Min (set (x # xs)) = x"
    by (intro Min_eqI) auto
  moreover have "set (x # xs) = set a"
    using xs by (metis set_sort)
  ultimately have "Min (set a) = sort a ! 0" using xs by simp
  then show ?thesis
    using assms by (simp add: np_percentile_Inr)
qed

lemma predict_daily_admissions_total:
  "\<exists>res. predict_daily_admissions sk daily h = Inr res"
proof (cases "length (dropna daily) < 30")
  case True
  then show ?thesis by (simp add: predict_daily_admissions_insufficient)
next
  case False
  then have "30 \<le> length (dropna daily)" by simp
  from predict_daily_admissions_sufficient [OF this, of sk h]
  show ?thesis by blast
qed

lemma predict_busy_periods_Inr:
  assumes "np_percentile (map (\<lambda>r. real_of_int (admission_count r)) daily) q = Inr t"
  shows "\<exists>r. predict_busy_periods sk daily q = Inr r \<and> threshold r = t \<and>
     busy_day_count r = length (filter (\<lambda>r. real_of_int (admission_count r) \<ge> t) daily)"
proof -
  obtain res where res: "predict_daily_admissions sk daily 90 = Inr res"
    using predict_daily_admissions_total by blast
  show ?thesis
    by (cases res) (simp_all add: predict_busy_periods_def assms res Let_def)
qed

lemma predict_busy_periods_Inl:
  assumes "np_percentile (map (\<lambda>r. real_of_int (admission_count r)) daily) q = Inl e"
  shows "predict_busy_periods sk daily q = Inl e"
  by (simp add: predict_busy_periods_def assms)

lemma counts_example:
  "map (\<lambda>r. real_of_int (admission_count r)) (daily_admissions_of [Some 0, Some 0, Some 2]) = [2, 1]"
proof -
  have "map admission_count (daily_admissions_of [Some 0, Some 0, Some 2]) = [2, 1]"
    by (simp add: daily_admissions_of_def counts_add_temporal_features groupby_size_def)
  then have "map (real_of_int \<circ> admission_count) (daily_admissions_of [Some 0, Some 0, Some 2]) = map real_of_int [2, 1]"
    by (simp only: map_map [symmetric])
  then show ?thesis by (simp add: comp_def)
qed

text \<open>
  Claim C7. For a fixed non-empty daily table and percentiles \<open>0 \<le> p1 \<le> p2 \<le> 100\<close>
  the busy-period analysis succeeds for both, and the threshold it reports for \<open>p1\<close>
  is at most the one it reports for \<open>p2\<close>.
\<close>

theorem busy_threshold_monotone:
  assumes "daily \<noteq> []" "0 \<le> p1" "p1 \<le> p2" "p2 \<le> 100"
  shows "\<exists>r1 r2. predict_busy_periods sk daily p1 = Inr r1 \<and>
           predict_busy_periods sk daily p2 = Inr r2 \<and> threshold r1 \<le> threshold r2"
proof -
  let ?counts = "map (\<lambda>r. real_of_int (admission_count r)) daily"
  have "?counts \<noteq> []" using assms(1) by simp
  from np_percentile_mono [OF this assms(2,3,4)]
  obtain t1 t2 where t: "np_percentile ?counts p1 = Inr t1" "np_percentile ?counts p2 = Inr t2"
    "t1 \<le> t2" by blast
  from predict_busy_periods_Inr [OF t(1), of sk]
  obtain r1 where r1: "predict_busy_periods sk daily p1 = Inr r1" "threshold r1 = t1" by blast
  from predict_busy_periods_Inr [OF t(2), of sk]
  obtain r2 where r2: "predict_busy_periods sk daily p2 = Inr r2" "threshold r2 = t2" by blast
  from r1 r2 t(3) show ?thesis by simp
qed

text \<open>An instance: daily counts 2 and 1, percentiles 75 and 90.\<close>

theorem busy_threshold_monotone_witness:
  "daily_admissions_of [Some 0, Some 0, Some 2] \<noteq> [] \<and> (0::real) \<le> 75 \<and> (75::real) \<le> 90 \<and>
   (90::real) \<le> 100 \<and>
   (\<exists>r1 r2.
      predict_busy_periods constant_regressors (daily_admissions_of [Some 0, Some 0, Some 2]) 75 = Inr r1 \<and>
      predict_busy_periods constant_regressors (daily_admissions_of [Some 0, Some 0, Some 2]) 90 = Inr r2 \<and>
      threshold r1 \<le> threshold r2)"
proof -
  have ne: "daily_admissions_of [Some 0, Some 0, Some 2] \<noteq> []"
    using counts_example by auto
  have b: "(0::real) \<le> 75" "(75::real) \<le> 90" "(90::real) \<le> 100" by simp_all
  from busy_threshold_monotone [OF ne b, of constant_regressors] ne
  show ?thesis by simp
qed

text \<open>
  Claim C3, as the code has it. The method checks nothing itself; the percentile
  function of numpy rejects every \<open>q\<close> outside the closed range \<open>[0, 100]\<close>, and its
  \<^verbatim>\<open>ValueError\<close> is what the busy-period analysis raises then. The percentile 0 is
  accepted: on a non-empty daily table the analysis succeeds, with the least daily
  count as the threshold.
\<close>

theorem percentile_outside_0_100_value_error:
  "(q < 0 \<or> 100 < q \<longrightarrow> predict_busy_periods sk daily q = Inl ValueError) \<and>
   (daily \<noteq> [] \<longrightarrow>
      (\<exists>r. predict_busy_periods sk daily 0 = Inr r \<and>
           threshold r = Min (set (map (\<lambda>r. real_of_int (admission_count r)) daily))))"
proof (intro conjI impI)
  assume "q < 0 \<or> 100 < q"
  then show "predict_busy_periods sk daily q = Inl ValueError"
    by (intro predict_busy_periods_Inl np_percentile_out_of_range)
next
  let ?counts = "map (\<lambda>r. real_of_int (admission_count r)) daily"
  assume "daily \<noteq> []"
  then have "?counts \<noteq> []" by simp
  from predict_busy_periods_Inr [OF np_percentile_zero [OF this], of sk]
  show "\<exists>r. predict_busy_periods sk daily 0 = Inr r \<and> threshold r = Min (set ?counts)"
    by blast
qed

text \<open>An instance: daily counts 2 and 1, percentiles 101 and 0.\<close>

theorem percentile_outside_0_100_value_error_witness:
  "(100::real) < 101 \<and>
   predict_busy_periods constant_regressors (daily_admissions_of [Some 0, Some 0, Some 2]) 101 =
     Inl ValueError \<and>
   daily_admissions_of [Some 0, Some 0, Some 2] \<noteq> [] \<and>
   (\<exists>r. predict_busy_periods constant_regressors (daily_admissions_of [Some 0, Some 0, Some 2]) 0 = Inr r \<and>
        threshold r = 1)"
proof -
  have ne: "daily_admissions_of [Some 0, Some 0, Some 2] \<noteq> []"
    using counts_example by auto
  have m: "Min (set (map (\<lambda>r. real_of_int (admission_count r))
      (daily_admissions_of [Some 0, Some 0, Some 2]))) = 1"
    unfolding counts_example by simp
  from percentile_outside_0_100_value_error
    [of 101 constant_regressors "daily_admissions_of [Some 0, Some 0, Some 2]"] ne
  show ?thesis unfolding m by simp
qed

text \<open>
  Claim C3 as stated fails at \<open>P = 0\<close>: with daily counts 2 and 1 the analysis returns
  a report, with threshold 1 and both days busy, and no error.
\<close>

theorem percentile_zero_accepted_counterexample:
  "map_sum id threshold
     (predict_busy_periods constant_regressors (daily_admissions_of [Some 0, Some 0, Some 2]) 0) =
     Inr 1 \<and>
   map_sum id busy_day_count
     (predict_busy_periods constant_regressors (daily_admissions_of [Some 0, Some 0, Some 2]) 0) =
     Inr 2"
proof -
  let ?daily = "daily_admissions_of [Some 0, Some 0, Some 2]"
  have "np_percentile (map (\<lambda>r. real_of_int (admission_count r)) ?daily) 0 = Inr 1"
    unfolding counts_example by (simp add: np_percentile_zero)
  from predict_busy_periods_Inr [OF this, of constant_regressors]
  obtain r where r: "predict_busy_periods constant_regressors ?daily 0 = Inr r" "threshold r = 1"
    "busy_day_count r = length (filter (\<lambda>r. real_of_int (admission_count r) \<ge> 1) ?daily)"
    by blast
  have "length (filter (\<lambda>r. real_of_int (admission_count r) \<ge> 1) ?daily) =
        length (filter (\<lambda>c. c \<ge> 1) (map (\<lambda>r. real_of_int (admission_count r)) ?daily))"
    by (simp add: filter_map comp_def)
  also have "\<dots> = 2" unfolding counts_example by simp
  finally show ?thesis using r by simp
qed

subsection \<open>The caller's frame\<close>

lemma length_setitem: "length (setitem h a name column) = length h"
  by (simp add: setitem_def)

lemma setitem_other: "b \<noteq> a \<Longrightarrow> setitem h a name column ! b = h ! b"
  by (simp add: setitem_def)

lemma take_setitem: "n \<le> a \<Longrightarrow> take n (setitem h a name column) = take n h"
  by (simp add: setitem_def)

lemma prepare_data_frame:
  "n \<le> a \<Longrightarrow> take n (fst (prepare_data to_datetime h a)) = take n h"
  by (simp add: prepare_data_def Let_def take_setitem split: option.splits)

lemma length_prepare_data:
  "length (fst (prepare_data to_datetime h a)) = length h"
  by (simp add: prepare_data_def Let_def length_setitem split: option.splits)

lemma init_frame:
  "take (length h) (fst (AdmissionPredictor_init to_datetime h admission_data)) = h"
proof -
  have "take (length h) (fst (prepare_data to_datetime (h @ [h ! admission_data]) (length h))) =
        take (length h) (h @ [h ! admission_data])"
    by (rule prepare_data_frame) simp
  moreover obtain h2 r where pd:
    "prepare_data to_datetime (h @ [h ! admission_data]) (length h) = (h2, r)"
    by (cases "prepare_data to_datetime (h @ [h ! admission_data]) (length h)")
  ultimately have "take (length h) h2 = h" by simp
  then show ?thesis
    by (cases r) (simp_all add: AdmissionPredictor_init_def df_copy_def pd)
qed

lemma init_data:
  "snd (AdmissionPredictor_init to_datetime h admission_data) = Inr self \<Longrightarrow> data self = length h"
  by (auto simp: AdmissionPredictor_init_def df_copy_def split: prod.splits sum.splits)

lemma invoke_state: "fst (invoke sk w c) = w"
  by (cases w; cases c) simp_all

lemma invoke_all_state: "invoke_all sk w calls = w"
  by (induction calls) (simp_all add: invoke_state)

text \<open>
  Claim C10. The caller's frame is an object of the store before the constructor runs.
  After the constructor, whether it succeeds or raises, that frame, and every other
  object the store had, is what it was; the frame of the predictor is a new object at
  another address. After any sequence of calls of \<^verbatim>\<open>predict_daily_admissions\<close>,
  \<^verbatim>\<open>predict_busy_periods\<close> and \<^verbatim>\<open>analyze_capacity_requirements\<close> on the
  constructed predictor this is still so.
\<close>

theorem caller_frame_not_mutated:
  assumes "admission_data < length h"
    and "AdmissionPredictor_init to_datetime h admission_data = (h', res)"
  shows "h' ! admission_data = h ! admission_data \<and> take (length h) h' = h \<and>
    (\<forall>self. res = Inr self \<longrightarrow>
       data self = length h \<and> data self \<noteq> admission_data \<and>
       (\<forall>calls. fst (invoke_all sk (h', self) calls) ! admission_data = h ! admission_data \<and>
                take (length h) (fst (invoke_all sk (h', self) calls)) = h))"
proof -
  have t: "take (length h) h' = h"
    using init_frame [of h to_datetime admission_data] assms(2) by simp
  have "h' ! admission_data = take (length h) h' ! admission_data"
    using assms(1) by simp
  then have n: "h' ! admission_data = h ! admission_data"
    by (simp only: t)
  have d: "data self = length h" if "res = Inr self" for self
    using init_data [of to_datetime h admission_data self] assms(2) that by simp
  show ?thesis
    using t n d assms(1) by (auto simp: invoke_all_state)
qed

lemma parse_dmy_examples:
  "parse_dmy (Str ''01/01/1970'') = Some 0"
  "parse_dmy (Str ''03/01/1970'') = Some 2"
  "parse_dmy (Str ''02/01/1970'') = Some 1"
  "parse_dmy (Str ''unknown'') = None"
  "parse_dmy NaN = None"
  by code_simp+

text \<open>
  An instance: a frame of three admissions, one of them with an unreadable date, and
  the three methods called in turn.
\<close>

theorem caller_frame_not_mutated_witness:
  "(0::nat) < length [[(''D.O.A'', [Str ''01/01/1970'', Str ''03/01/1970'', Str ''unknown'']),
                      (''D.O.D'', [Str ''02/01/1970'', NaN, NaN])]] \<and>
   snd (AdmissionPredictor_init parse_dmy
     [[(''D.O.A'', [Str ''01/01/1970'', Str ''03/01/1970'', Str ''unknown'']),
       (''D.O.D'', [Str ''02/01/1970'', NaN, NaN])]] 0) =
     Inr \<lparr> data = 1, daily_admissions = daily_admissions_of [Some 0, Some 2, None] \<rparr> \<and>
   fst (invoke_all constant_regressors
     (fst (AdmissionPredictor_init parse_dmy
        [[(''D.O.A'', [Str ''01/01/1970'', Str ''03/01/1970'', Str ''unknown'']),
          (''D.O.D'', [Str ''02/01/1970'', NaN, NaN])]] 0),
      \<lparr> data = 1, daily_admissions = daily_admissions_of [Some 0, Some 2, None] \<rparr>)
     [Predict_daily_admissions 30, Predict_busy_periods 75, Analyze_capacity_requirements]) ! 0 =
     [(''D.O.A'', [Str ''01/01/1970'', Str ''03/01/1970'', Str ''unknown'']),
      (''D.O.D'', [Str ''02/01/1970'', NaN, NaN])]"
proof -
  let ?df = "[(''D.O.A'', [Str ''01/01/1970'', Str ''03/01/1970'', Str ''unknown'']),
              (''D.O.D'', [Str ''02/01/1970'', NaN, NaN])]"
  let ?self = "\<lparr> data = 1, daily_admissions = daily_admissions_of [Some 0, Some 2, None] \<rparr>"
  have l: "(0::nat) < length [?df]" by simp
  have s: "snd (AdmissionPredictor_init parse_dmy [?df] 0) = Inr ?self"
    by (simp add: AdmissionPredictor_init_def df_copy_def prepare_data_def setitem_def Let_def
        parse_dmy_examples)
  have p: "AdmissionPredictor_init parse_dmy [?df] 0 =
      (fst (AdmissionPredictor_init parse_dmy [?df] 0), Inr ?self)"
    using s by (metis prod.collapse)
  from caller_frame_not_mutated [OF l p, of constant_regressors]
  have "fst (invoke_all constant_regressors
     (fst (AdmissionPredictor_init parse_dmy [?df] 0), ?self)
     [Predict_daily_admissions 30, Predict_busy_periods 75, Analyze_capacity_requirements]) ! 0 =
     [?df] ! 0"
    by blast
  with l s show ?thesis by simp
qed

end
